theory Spec2Isabelle
  imports Complex_Main "HOL-Library.Sublist"
begin

section \<open>Synthetic mid-infrared spectrum: the model of \<open>plot_spectrum.py\<close>\<close>

text \<open>
  The script is one procedure, \<open>main\<close>, in six numbered stages. Its arrays are
  one-dimensional numpy arrays of Python floats. They are modelled as lists of real
  numbers: every arithmetic operation is the exact one, rounding to the nearest binary64
  number is not modelled. The one place where the script leaves the range of binary64 is
  modelled: \<open>np.exp\<close> of a large negative number underflows to zero. What Python and
  numpy raise is a value of \<open>error\<close>.
\<close>

datatype error = ValueError | NameError | AttributeError

type_synonym ndarray = "real list"

subsection \<open>The numpy operations the script calls\<close>

text \<open>
  \<open>np.linspace(start, stop, num)\<close> with \<open>endpoint=True\<close>: the indices
  \<open>0 .. num - 1\<close> are scaled by the step \<open>(stop - start) / (num - 1)\<close>, shifted
  by \<open>start\<close>, and the last sample is then overwritten with \<open>stop\<close>.
\<close>

definition linspace :: "real \<Rightarrow> real \<Rightarrow> nat \<Rightarrow> ndarray" where
  "linspace start stop num =
     (let dv = num - 1;
          delta = stop - start;
          y = map real [0..<num];
          y = (if 0 < dv
               then (let step = delta / real dv
                     in if step = 0 then map (\<lambda>v. v / real dv * delta) y
                        else map (\<lambda>v. v * step) y)
               else map (\<lambda>v. v * delta) y);
          y = map (\<lambda>v. v + start) y
      in if 1 < num then y[num - 1 := stop] else y)"

text \<open>Arithmetic between an array and a scalar is applied to every element.\<close>

definition sub_scalar :: "ndarray \<Rightarrow> real \<Rightarrow> ndarray" where
  "sub_scalar xs c = map (\<lambda>x. x - c) xs"

definition scalar_mul :: "real \<Rightarrow> ndarray \<Rightarrow> ndarray" where
  "scalar_mul c xs = map (\<lambda>x. c * x) xs"

definition scalar_add :: "real \<Rightarrow> ndarray \<Rightarrow> ndarray" where
  "scalar_add c xs = map (\<lambda>x. c + x) xs"

definition div_scalar :: "ndarray \<Rightarrow> real \<Rightarrow> ndarray" where
  "div_scalar xs c = map (\<lambda>x. x / c) xs"

definition pow_scalar :: "ndarray \<Rightarrow> nat \<Rightarrow> ndarray" where
  "pow_scalar xs k = map (\<lambda>x. x ^ k) xs"

definition neg :: "ndarray \<Rightarrow> ndarray" where
  "neg xs = map uminus xs"

text \<open>
  The smallest positive binary64 number is 2 to the power -1074. Where the exponential
  is at most half of it, \<open>np.exp\<close> returns \<open>0.0\<close> (underflow, which numpy does not
  report).
\<close>

definition min_subnormal :: real where
  "min_subnormal = (1 / 2) ^ 1074"

definition exp64 :: "real \<Rightarrow> real" where
  "exp64 x = (if exp x \<le> min_subnormal / 2 then 0 else exp x)"

definition np_exp :: "ndarray \<Rightarrow> ndarray" where
  "np_exp xs = map exp64 xs"

text \<open>
  \<open>a + b\<close> on two one-dimensional arrays: elementwise when the lengths agree, an array
  of length one is stretched along the other, anything else raises \<open>ValueError\<close>.
\<close>

definition arr_add :: "ndarray \<Rightarrow> ndarray \<Rightarrow> error + ndarray" where
  "arr_add xs ys =
     (if length xs = length ys then Inr (map2 (+) xs ys)
      else if length xs = 1 then Inr (map (\<lambda>y. hd xs + y) ys)
      else if length ys = 1 then Inr (map (\<lambda>x. x + hd ys) xs)
      else Inl ValueError)"

text \<open>\<open>a.max()\<close> raises \<open>ValueError\<close> on an empty array.\<close>

definition arr_max :: "ndarray \<Rightarrow> error + real" where
  "arr_max xs = (case xs of [] \<Rightarrow> Inl ValueError | x # rest \<Rightarrow> Inr (foldl max x rest))"

text \<open>
  The random generator is numpy's, not the script's: it is a parameter of the model.
  \<open>default_rng\<close> turns an integer seed into a generator state, \<open>next_normal\<close> draws
  one standard normal variate and returns the advanced state.
\<close>

record 'g numpy_random =
  default_rng :: "int \<Rightarrow> 'g"
  next_normal :: "'g \<Rightarrow> real \<times> 'g"

text \<open>\<open>rng.standard_normal(n)\<close>: \<open>n\<close> successive draws; the generator is advanced.\<close>

fun standard_normal :: "'g numpy_random \<Rightarrow> 'g \<Rightarrow> nat \<Rightarrow> ndarray \<times> 'g" where
  "standard_normal R g 0 = ([], g)"
| "standard_normal R g (Suc n) =
     (let (z, g') = next_normal R g;
          (zs, g'') = standard_normal R g' n
      in (z # zs, g''))"

subsection \<open>The literals of \<open>main\<close>\<close>

definition wave_min :: real where "wave_min = 10.0"
definition wave_max :: real where "wave_max = 30.0"
definition n_points :: nat where "n_points = 500"

definition line_center :: real where "line_center = 17.22"
definition line_width :: real where "line_width = 0.15"
definition line_ampl :: real where "line_ampl = 0.3"

subsection \<open>Stages 1 and 2: the axis and the flux\<close>

definition make_wavelength :: ndarray where
  "make_wavelength = linspace wave_min wave_max n_points"

definition make_continuum :: "ndarray \<Rightarrow> ndarray" where
  "make_continuum wavelength = scalar_add 1.0 (scalar_mul 0.02 (sub_scalar wavelength 20.0))"

definition make_line_profile :: "ndarray \<Rightarrow> ndarray" where
  "make_line_profile wavelength =
     scalar_mul line_ampl
       (np_exp (div_scalar (neg (pow_scalar (sub_scalar wavelength line_center) 2))
                           (2.0 * line_width ^ 2)))"

definition make_noise :: "'g numpy_random \<Rightarrow> 'g \<Rightarrow> ndarray \<times> 'g" where
  "make_noise R g = (let (zs, g') = standard_normal R g n_points in (scalar_mul 0.02 zs, g'))"

definition make_flux :: "ndarray \<Rightarrow> ndarray \<Rightarrow> ndarray \<Rightarrow> error + ndarray" where
  "make_flux continuum line_profile noise =
     (case arr_add continuum line_profile of
        Inl e \<Rightarrow> Inl e
      | Inr t \<Rightarrow> arr_add t noise)"

subsection \<open>The objects of pyspeckit and matplotlib\<close>

text \<open>
  Strings are byte strings: a character outside ASCII is written as its UTF-8 bytes.
\<close>

definition micro :: string where "micro = [CHR 0xC2, CHR 0xB5]"
definition sup_minus :: string where "sup_minus = [CHR 0xE2, CHR 0x81, CHR 0xBB]"
definition sup_one :: string where "sup_one = [CHR 0xC2, CHR 0xB9]"
definition sup_two :: string where "sup_two = [CHR 0xC2, CHR 0xB2]"
definition sub_two :: string where "sub_two = [CHR 0xE2, CHR 0x82, CHR 0x82]"
definition nb_hyphen :: string where "nb_hyphen = [CHR 0xE2, CHR 0x80, CHR 0x91]"

record spectroscopic_axis =
  axis_values :: ndarray
  axis_unit :: string

text \<open>
  A \<open>pyspeckit.Spectrum\<close>: its data, its axis, its unit, and the figure its plotter
  draws in (\<open>sp.plotter.axis\<close>, \<open>None\<close> until the plotter has been called).
\<close>

record spectrum =
  data :: ndarray
  xarr :: spectroscopic_axis
  unit :: string
  plotter_axis :: "nat option"

datatype artist =
    Line2D ndarray ndarray string real string
      \<comment> \<open>x, y, color, linewidth, label\<close>
  | AxVLine real string string real real string
      \<comment> \<open>x, color, linestyle, linewidth, alpha, label\<close>
  | Annotation string "real \<times> real" "real \<times> real" string string real real string string
      \<comment> \<open>text, xy, xytext, arrowstyle, arrow color, arrow lw, fontsize, color, ha\<close>

record axes =
  artists :: "artist list"
  xlabel :: "(string \<times> real) option"
  ylabel :: "(string \<times> real) option"
  title :: "(string \<times> real \<times> real) option"
  legend :: "(string \<times> real) option"
  grid :: "(bool \<times> real) option"

record figure =
  figsize :: "real \<times> real"
  fig_axes :: "axes option"
  tight :: bool

text \<open>The figures pyplot manages (a figure's handle is its index) and the current one.\<close>

record pyplot =
  figures :: "figure list"
  current :: "nat option"

text \<open>One write of an image file: where, in which format, at which resolution, of what.\<close>

record image_file =
  path :: string
  format :: string
  dpi :: real
  rendered :: figure

text \<open>What a run can see and change outside its own variables.\<close>

record world =
  plt :: pyplot
  file_writes :: "image_file list"
  stdout :: "string list"

text \<open>The local variables of \<open>main\<close> (\<open>None\<close>: not yet bound) and the world.\<close>

record 'g state =
  wavelength :: "ndarray option"
  continuum :: "ndarray option"
  line_profile :: "ndarray option"
  rng :: "'g option"
  noise :: "ndarray option"
  flux :: "ndarray option"
  xaxis :: "spectroscopic_axis option"
  sp :: "spectrum option"
  fig :: "nat option"
  outside :: world

definition bind_err :: "error + 'a \<Rightarrow> ('a \<Rightarrow> error + 'b) \<Rightarrow> error + 'b" where
  "bind_err m f = (case m of Inl e \<Rightarrow> Inl e | Inr x \<Rightarrow> f x)"

definition local_var :: "'a option \<Rightarrow> error + 'a" where
  "local_var v = (case v of None \<Rightarrow> Inl NameError | Some x \<Rightarrow> Inr x)"

definition empty_axes :: axes where
  "empty_axes = \<lparr>artists = [], xlabel = None, ylabel = None, title = None,
                  legend = None, grid = None\<rparr>"

text \<open>\<open>plt.figure(figsize=...)\<close>: a new figure, which becomes the current one.\<close>

definition plt_figure :: "real \<times> real \<Rightarrow> pyplot \<Rightarrow> nat \<times> pyplot" where
  "plt_figure sz p =
     (let h = length (figures p)
      in (h, \<lparr>figures = figures p @ [\<lparr>figsize = sz, fig_axes = None, tight = False\<rparr>],
              current = Some h\<rparr>))"

text \<open>\<open>plt.gcf()\<close>: the current figure; a figure of the default size is made if there is none.\<close>

definition gcf :: "pyplot \<Rightarrow> nat \<times> pyplot" where
  "gcf p = (case current p of
              Some h \<Rightarrow> if h < length (figures p) then (h, p) else plt_figure (6.4, 4.8) p
            | None \<Rightarrow> plt_figure (6.4, 4.8) p)"

definition update_figure :: "nat \<Rightarrow> (figure \<Rightarrow> figure) \<Rightarrow> pyplot \<Rightarrow> pyplot" where
  "update_figure h f p = p\<lparr>figures := (figures p)[h := f (figures p ! h)]\<rparr>"

text \<open>
  \<open>sp.plotter(figure=fig, ...)\<close>: the spectrum is drawn as one line in the axes of the
  given figure (made if the figure has none), the figure becomes the current one, and the
  plotter remembers the axes. The default labels the plotter writes are overwritten by
  the calls that follow it in \<open>main\<close> and are left out.
\<close>

definition plotter :: "spectrum \<Rightarrow> nat \<Rightarrow> string \<Rightarrow> real \<Rightarrow> string \<Rightarrow> pyplot
    \<Rightarrow> error + spectrum \<times> pyplot" where
  "plotter s h color linewidth label p =
     (if h < length (figures p)
      then Inr (s\<lparr>plotter_axis := Some h\<rparr>,
                (update_figure h
                   (\<lambda>f. let ax = (case fig_axes f of None \<Rightarrow> empty_axes | Some a \<Rightarrow> a)
                        in f\<lparr>fig_axes := Some (ax\<lparr>artists := artists ax @
                              [Line2D (axis_values (xarr s)) (data s) color linewidth label]\<rparr>)\<rparr>)
                   p)\<lparr>current := Some h\<rparr>)
      else Inl ValueError)"

text \<open>A method call on \<open>sp.plotter.axis\<close>: \<open>AttributeError\<close> while that is \<open>None\<close>.\<close>

definition on_axis :: "spectrum \<Rightarrow> (axes \<Rightarrow> axes) \<Rightarrow> pyplot \<Rightarrow> error + pyplot" where
  "on_axis s f p =
     (case plotter_axis s of
        None \<Rightarrow> Inl AttributeError
      | Some h \<Rightarrow>
          (if h < length (figures p)
           then (case fig_axes (figures p ! h) of
                   None \<Rightarrow> Inl AttributeError
                 | Some a \<Rightarrow> Inr (update_figure h (\<lambda>g. g\<lparr>fig_axes := Some (f a)\<rparr>) p))
           else Inl AttributeError))"

text \<open>
  The format \<open>savefig\<close> writes when none is given: the extension of the file name
  (\<open>os.path.splitext\<close>: after the last dot of the last path component, leading dots
  apart), and \<open>png\<close>, appended to the name, when there is none.
\<close>

definition basename :: "string \<Rightarrow> string" where
  "basename p = rev (takeWhile (\<lambda>c. c \<noteq> CHR ''/'') (rev p))"

definition extension :: "string \<Rightarrow> string" where
  "extension p =
     (let b = dropWhile (\<lambda>c. c = CHR ''.'') (basename p)
      in if CHR ''.'' \<in> set b then rev (takeWhile (\<lambda>c. c \<noteq> CHR ''.'') (rev b)) else [])"

definition rstrip_dots :: "string \<Rightarrow> string" where
  "rstrip_dots p = rev (dropWhile (\<lambda>c. c = CHR ''.'') (rev p))"

definition plt_savefig :: "string \<Rightarrow> real \<Rightarrow> world \<Rightarrow> world" where
  "plt_savefig fname d w =
     (let (h, p) = gcf (plt w);
          ext = extension fname;
          (name, fmt) = (if ext = [] then (rstrip_dots fname @ ''.png'', ''png'')
                         else (fname, ext))
      in w\<lparr>plt := p,
           file_writes := file_writes w @
             [\<lparr>path = name, format = fmt, dpi = d, rendered = figures p ! h\<rparr>]\<rparr>)"

definition plt_tight_layout :: "pyplot \<Rightarrow> pyplot" where
  "plt_tight_layout p = (let (h, p') = gcf p in update_figure h (\<lambda>f. f\<lparr>tight := True\<rparr>) p')"

definition print :: "string \<Rightarrow> world \<Rightarrow> world" where
  "print line w = w\<lparr>stdout := stdout w @ [line]\<rparr>"

subsection \<open>The six stages of \<open>main\<close>\<close>

text \<open>Stage 1, lines 24 to 27: the wavelength axis.\<close>

definition stage1 :: "'g state \<Rightarrow> error + 'g state" where
  "stage1 s = Inr (s\<lparr>wavelength := Some make_wavelength\<rparr>)"

text \<open>Stage 2, lines 33 to 47: continuum, line profile, noise and their sum.\<close>

definition stage2 :: "'g numpy_random \<Rightarrow> int \<Rightarrow> 'g state \<Rightarrow> error + 'g state" where
  "stage2 R seed s =
     bind_err (local_var (wavelength s)) (\<lambda>w.
       let c = make_continuum w;
           lp = make_line_profile w;
           g = default_rng R seed;
           (nz, g') = make_noise R g
       in bind_err (make_flux c lp nz) (\<lambda>f.
            Inr (s\<lparr>continuum := Some c, line_profile := Some lp, rng := Some g',
                   noise := Some nz, flux := Some f\<rparr>)))"

text \<open>Stage 3, lines 54 to 57: the pyspeckit objects.\<close>

definition stage3 :: "'g state \<Rightarrow> error + 'g state" where
  "stage3 s =
     bind_err (local_var (wavelength s)) (\<lambda>w.
     bind_err (local_var (flux s)) (\<lambda>f.
       let xa = \<lparr>axis_values = w, axis_unit = ''micron''\<rparr>
       in Inr (s\<lparr>xaxis := Some xa,
                 sp := Some \<lparr>data = f, xarr = xa,
                             unit = ''erg s'' @ sup_minus @ sup_one @ '' cm'' @ sup_minus
                                    @ sup_two @ '' '' @ micro @ ''m'' @ sup_minus @ sup_one,
                             plotter_axis = None\<rparr>\<rparr>)))"

text \<open>Stage 4, lines 62 to 67: the figure, the plot of the spectrum, labels and title.\<close>

definition stage4 :: "'g state \<Rightarrow> error + 'g state" where
  "stage4 s =
     (let (h, p) = plt_figure (10, 6) (plt (outside s))
      in bind_err (local_var (sp s)) (\<lambda>spec.
         bind_err (plotter spec h ''k'' 1.5 ''Synthetic spectrum'' p) (\<lambda>(spec, p).
         bind_err (on_axis spec (\<lambda>a. a\<lparr>xlabel := Some (''Wavelength ['' @ micro @ ''m]'', 14)\<rparr>) p)
           (\<lambda>p.
         bind_err (on_axis spec (\<lambda>a. a\<lparr>ylabel := Some (''Normalized Flux'', 14)\<rparr>) p) (\<lambda>p.
         bind_err (on_axis spec (\<lambda>a. a\<lparr>title := Some (''Mid'' @ nb_hyphen @
                      ''infrared spectrum of a protoplanetary disk'', 16, 15)\<rparr>) p) (\<lambda>p.
           Inr (s\<lparr>fig := Some h, sp := Some spec, outside := (outside s)\<lparr>plt := p\<rparr>\<rparr>)))))))"

text \<open>Stage 5, lines 73 to 86: the marker of the water line, its label, legend and grid.\<close>

definition stage5 :: "'g state \<Rightarrow> error + 'g state" where
  "stage5 s =
     bind_err (local_var (sp s)) (\<lambda>spec.
     bind_err (on_axis spec (\<lambda>a. a\<lparr>artists := artists a @
                  [AxVLine line_center ''red'' ''--'' 2 0.8
                     (''H'' @ sub_two @ ''O rotational line (17.22 '' @ micro @ ''m)'')]\<rparr>)
                (plt (outside s))) (\<lambda>p.
     bind_err (arr_max (data spec)) (\<lambda>m1.
     bind_err (arr_max (data spec)) (\<lambda>m2.
     bind_err (on_axis spec (\<lambda>a. a\<lparr>artists := artists a @
                  [Annotation (''H'' @ sub_two @ ''O 17.22 '' @ micro @ ''m'')
                     (line_center, m1 * 0.9) (line_center + 1.0, m2 * 0.95)
                     ''->'' ''red'' 1.5 13 ''red'' ''center'']\<rparr>) p) (\<lambda>p.
     bind_err (on_axis spec (\<lambda>a. a\<lparr>legend := Some (''upper right'', 12)\<rparr>) p) (\<lambda>p.
     bind_err (on_axis spec (\<lambda>a. a\<lparr>grid := Some (True, 0.3)\<rparr>) p) (\<lambda>p.
       Inr (s\<lparr>outside := (outside s)\<lparr>plt := p\<rparr>\<rparr>))))))))"

text \<open>Stage 6, lines 91 to 93: layout, the image file, the confirmation.\<close>

definition stage6 :: "'g state \<Rightarrow> error + 'g state" where
  "stage6 s =
     (let w = outside s;
          w = w\<lparr>plt := plt_tight_layout (plt w)\<rparr>;
          w = plt_savefig ''water_line_spectrum.png'' 150 w;
          w = print ''Figure saved as water_line_spectrum.png'' w
      in Inr (s\<lparr>outside := w\<rparr>))"

subsection \<open>The whole run\<close>

text \<open>A call of \<open>main\<close> starts with no local variable bound.\<close>

definition enter :: "world \<Rightarrow> 'g state" where
  "enter w = \<lparr>wavelength = None, continuum = None, line_profile = None, rng = None,
              noise = None, flux = None, xaxis = None, sp = None, fig = None, outside = w\<rparr>"

fun run_stages :: "('s \<Rightarrow> error + 's) list \<Rightarrow> 's \<Rightarrow> error + 's" where
  "run_stages [] s = Inr s"
| "run_stages (f # fs) s = bind_err (f s) (run_stages fs)"

text \<open>The stages that follow the creation of the axis.\<close>

definition later_stages :: "'g numpy_random \<Rightarrow> int \<Rightarrow> ('g state \<Rightarrow> error + 'g state) list" where
  "later_stages R seed = [stage2 R seed, stage3, stage4, stage5, stage6]"

text \<open>\<open>main\<close> with the seed of line 44 as a parameter, and \<open>main\<close> itself.\<close>

definition main_seeded :: "'g numpy_random \<Rightarrow> int \<Rightarrow> world \<Rightarrow> error + 'g state" where
  "main_seeded R seed w = run_stages (stage1 # later_stages R seed) (enter w)"

definition main :: "'g numpy_random \<Rightarrow> world \<Rightarrow> error + 'g state" where
  "main R w = main_seeded R 12345 w"

text \<open>
  What stage 4 establishes and stages 5 and 6 rely on: the spectrum is bound and not
  empty, its plotter draws in an existing figure of 10 by 6 inches that has axes, and
  that figure is pyplot's current one.
\<close>

definition drawn :: "'g state \<Rightarrow> bool" where
  "drawn s =
     (case sp s of
        None \<Rightarrow> False
      | Some spec \<Rightarrow>
          data spec \<noteq> [] \<and>
          (case plotter_axis spec of
             None \<Rightarrow> False
           | Some h \<Rightarrow>
               (let p = plt (outside s)
                in h < length (figures p) \<and> current p = Some h \<and>
                   fig_axes (figures p ! h) \<noteq> None \<and> figsize (figures p ! h) = (10, 6))))"

text \<open>The five arrays of a state, for statements about all of them at once.\<close>

definition arrays :: "'g state \<Rightarrow>
    ndarray option \<times> ndarray option \<times> ndarray option \<times> ndarray option \<times> ndarray option" where
  "arrays s = (wavelength s, continuum s, line_profile s, noise s, flux s)"

subsection \<open>A concrete generator and two concrete worlds\<close>

text \<open>
  A generator to run the model on: its state is a counter that starts at the seed, and
  every draw is the counter divided by 1000. And the world of a fresh process:
  no figure, nothing written, nothing printed.
\<close>

definition counter_random :: "int numpy_random" where
  "counter_random = \<lparr>default_rng = (\<lambda>seed. seed),
                      next_normal = (\<lambda>g. (real_of_int g / 1000, g + 1))\<rparr>"

definition fresh_world :: world where
  "fresh_world = \<lparr>plt = \<lparr>figures = [], current = None\<rparr>, file_writes = [], stdout = []\<rparr>"

text \<open>
  The world of a process that has already drawn, saved and printed: one figure of the
  default size, current; one earlier image; one line on standard output.
\<close>

definition busy_world :: world where
  "busy_world =
     \<lparr>plt = \<lparr>figures = [\<lparr>figsize = (6.4, 4.8), fig_axes = None, tight = False\<rparr>],
             current = Some 0\<rparr>,
      file_writes = [\<lparr>path = ''old.png'', format = ''png'', dpi = 100,
                      rendered = \<lparr>figsize = (6.4, 4.8), fig_axes = None, tight = False\<rparr>\<rparr>],
      stdout = [''hello'']\<rparr>"

section \<open>Properties\<close>

subsection \<open>The operations\<close>

lemma length_linspace: "length (linspace a b n) = n"
  by (simp add: linspace_def Let_def)

lemma linspace_nth:
  assumes "i < n"
  shows "linspace a b n ! i = a + real i * ((b - a) / real (n - 1))"
proof (cases "1 < n")
  case True
  then have d: "0 < n - 1" by simp
  show ?thesis
  proof (cases "i = n - 1")
    case True
    with d have "real i * ((b - a) / real (n - 1)) = b - a" by simp
    with True \<open>1 < n\<close> show ?thesis
      by (simp add: linspace_def Let_def)
  next
    case False
    with assms \<open>1 < n\<close> show ?thesis
      by (simp add: linspace_def Let_def)
  qed
next
  case False
  with assms have "n = 1" "i = 0" by simp_all
  then show ?thesis by (simp add: linspace_def)
qed

lemma half_min_subnormal: "min_subnormal / 2 = (1 / 2) ^ 1075"
proof -
  have "(1 / 2 :: real) ^ Suc 1074 = 1 / 2 * (1 / 2) ^ 1074"
    by (rule power_Suc)
  moreover have "Suc 1074 = 1075"
    by simp
  ultimately have "(1 / 2 :: real) ^ 1075 = 1 / 2 * (1 / 2) ^ 1074"
    by (simp only:)
  then show ?thesis
    by (simp only: min_subnormal_def times_divide_eq_left mult_1)
qed








lemma exp_600_less: "exp (600::real) < 2 ^ 1075"
proof -
  have e: "(600::nat) = 12 * 50"
    by simp
  have "exp (600::real) = exp (real (600::nat) * 1)"
    by simp
  also have "\<dots> = exp 1 ^ 600"
    by (rule exp_of_nat_mult)
  also have "\<dots> \<le> 3 ^ 600"
    by (rule power_mono) (simp_all add: exp_le)
  also have "\<dots> = ((3::real) ^ 12) ^ 50"
    unfolding e by (rule power_mult)
  also have "\<dots> < ((2::real) ^ 20) ^ 50"
    by (rule power_strict_mono) simp_all
  also have "\<dots> = (2::real) ^ (20 * 50)"
    by (rule power_mult [symmetric])
  also have "\<dots> \<le> (2::real) ^ 1075"
    by (rule power_increasing) simp_all
  finally show ?thesis .
qed

lemma exp64_exact:
  assumes "- 600 \<le> x"
  shows "exp64 x = exp x"
proof -
  have "inverse ((2::real) ^ 1075) < inverse (exp 600)"
    using exp_600_less by (simp only: less_imp_inverse_less exp_gt_zero)
  also have "\<dots> = exp (- 600)"
    by (simp only: exp_minus)
  also have "\<dots> \<le> exp x"
    using assms by (simp only: exp_le_cancel_iff)
  finally have "min_subnormal / 2 < exp x"
    by (simp only: half_min_subnormal power_one_over inverse_eq_divide)
  then show ?thesis
    by (simp add: exp64_def)
qed

lemma bind_err_Inr [simp]: "bind_err (Inr x) f = f x"
  by (simp add: bind_err_def)

lemma bind_err_Inl [simp]: "bind_err (Inl e) f = Inl e"
  by (simp add: bind_err_def)

lemma bind_err_eq_Inr: "bind_err m f = Inr y \<longleftrightarrow> (\<exists>x. m = Inr x \<and> f x = Inr y)"
  by (cases m) simp_all

lemma local_var_eq_Inr: "local_var v = Inr x \<longleftrightarrow> v = Some x"
  by (cases v) (simp_all add: local_var_def)

lemma local_var_Some [simp]: "local_var (Some x) = Inr x"
  by (simp add: local_var_def)

lemma length_standard_normal: "standard_normal R g n = (zs, g') \<Longrightarrow> length zs = n"
proof (induction n arbitrary: g zs g')
  case 0
  then show ?case by simp
next
  case (Suc n)
  obtain z g1 where d: "next_normal R g = (z, g1)"
    by (cases "next_normal R g")
  obtain zs' g2 where r: "standard_normal R g1 n = (zs', g2)"
    by (cases "standard_normal R g1 n")
  from Suc.prems d r have "zs = z # zs'" by simp
  with Suc.IH[OF r] show ?case by simp
qed

lemma length_make_noise: "length (fst (make_noise R g)) = n_points"
proof -
  obtain zs g' where r: "standard_normal R g n_points = (zs, g')"
    by (cases "standard_normal R g n_points")
  from length_standard_normal[OF r] r show ?thesis
    by (simp add: make_noise_def scalar_mul_def)
qed

lemma length_make_continuum: "length (make_continuum w) = length w"
  by (simp add: make_continuum_def scalar_add_def scalar_mul_def sub_scalar_def)

lemma length_make_line_profile: "length (make_line_profile w) = length w"
  by (simp add: make_line_profile_def scalar_mul_def np_exp_def div_scalar_def neg_def
      pow_scalar_def sub_scalar_def)

lemma length_make_wavelength: "length make_wavelength = n_points"
  by (simp add: make_wavelength_def length_linspace)

lemma arr_add_same_length:
  "length xs = length ys \<Longrightarrow> arr_add xs ys = Inr (map2 (+) xs ys)"
  by (simp add: arr_add_def)

lemma make_flux_same_length:
  assumes "length c = length l" "length l = length z"
  shows "make_flux c l z = Inr (map2 (+) (map2 (+) c l) z)"
  using assms by (simp add: make_flux_def arr_add_same_length)

lemma stage2_success:
  assumes "wavelength s = Some w" "length w = n_points"
  shows "stage2 R seed s =
     Inr (s\<lparr>continuum := Some (make_continuum w),
            line_profile := Some (make_line_profile w),
            rng := Some (snd (make_noise R (default_rng R seed))),
            noise := Some (fst (make_noise R (default_rng R seed))),
            flux := Some (map2 (+) (map2 (+) (make_continuum w) (make_line_profile w))
                           (fst (make_noise R (default_rng R seed))))\<rparr>)"
proof -
  obtain nz g' where n: "make_noise R (default_rng R seed) = (nz, g')"
    by (cases "make_noise R (default_rng R seed)")
  with length_make_noise[of R "default_rng R seed"] have "length nz = n_points" by simp
  with assms n show ?thesis
    by (simp add: stage2_def Let_def make_flux_same_length length_make_continuum
        length_make_line_profile)
qed

subsection \<open>The stages\<close>

lemma stage3_frame:
  "stage3 s = Inr s' \<Longrightarrow> arrays s' = arrays s \<and> outside s' = outside s"
  by (auto simp: stage3_def arrays_def bind_err_eq_Inr local_var_eq_Inr Let_def)

lemma stage3_success:
  assumes "wavelength s = Some w" "flux s = Some f"
  shows "\<exists>s' spec. stage3 s = Inr s' \<and> sp s' = Some spec \<and> data spec = f
           \<and> axis_values (xarr spec) = w"
  using assms by (simp add: stage3_def Let_def)

lemma length_update_figure [simp]: "length (figures (update_figure h f p)) = length (figures p)"
  by (simp add: update_figure_def)

lemma current_update_figure [simp]: "current (update_figure h f p) = current p"
  by (simp add: update_figure_def)

lemma nth_update_figure [simp]:
  "h < length (figures p) \<Longrightarrow> figures (update_figure h f p) ! h = f (figures p ! h)"
  by (simp add: update_figure_def)

lemma on_axis_success:
  assumes "plotter_axis spec = Some h" "h < length (figures p)"
    "fig_axes (figures p ! h) = Some a"
  shows "on_axis spec f p = Inr (update_figure h (\<lambda>g. g\<lparr>fig_axes := Some (f a)\<rparr>) p)"
  using assms by (simp add: on_axis_def)

lemma on_axis_eq_Inr:
  "on_axis spec f p = Inr p' \<Longrightarrow>
     \<exists>h a. plotter_axis spec = Some h \<and> h < length (figures p) \<and>
       fig_axes (figures p ! h) = Some a \<and>
       p' = update_figure h (\<lambda>g. g\<lparr>fig_axes := Some (f a)\<rparr>) p"
  by (auto simp: on_axis_def split: option.splits if_splits)

lemma stage4_frame:
  "stage4 s = Inr s' \<Longrightarrow> arrays s' = arrays s \<and>
     file_writes (outside s') = file_writes (outside s) \<and> stdout (outside s') = stdout (outside s)"
  by (auto simp: stage4_def arrays_def bind_err_eq_Inr local_var_eq_Inr Let_def
      split: prod.splits)

lemma stage5_frame:
  "stage5 s = Inr s' \<Longrightarrow> arrays s' = arrays s \<and> sp s' = sp s \<and>
     file_writes (outside s') = file_writes (outside s) \<and> stdout (outside s') = stdout (outside s)"
  by (auto simp: stage5_def arrays_def bind_err_eq_Inr local_var_eq_Inr Let_def
      split: prod.splits)

lemma stage6_frame:
  "stage6 s = Inr s' \<Longrightarrow> arrays s' = arrays s"
  by (auto simp: stage6_def arrays_def Let_def)

lemma drawnI:
  assumes "sp s = Some spec" "data spec \<noteq> []" "plotter_axis spec = Some h"
    "h < length (figures (plt (outside s)))" "current (plt (outside s)) = Some h"
    "fig_axes (figures (plt (outside s)) ! h) = Some a"
    "figsize (figures (plt (outside s)) ! h) = (10, 6)"
  shows "drawn s"
  using assms by (simp add: drawn_def)

lemma drawnE:
  assumes "drawn s"
  obtains spec h a where "sp s = Some spec" "data spec \<noteq> []" "plotter_axis spec = Some h"
    "h < length (figures (plt (outside s)))" "current (plt (outside s)) = Some h"
    "fig_axes (figures (plt (outside s)) ! h) = Some a"
    "figsize (figures (plt (outside s)) ! h) = (10, 6)"
  using assms by (auto simp: drawn_def Let_def split: option.splits)

lemma stage4_success:
  assumes "sp s = Some spec" "data spec \<noteq> []"
  shows "\<exists>s'. stage4 s = Inr s' \<and> drawn s'"
proof -
  let ?p0 = "plt (outside s)"
  let ?h = "length (figures ?p0)"
  have "\<exists>s'. stage4 s = Inr s' \<and> (\<exists>spec'. sp s' = Some spec' \<and> data spec' \<noteq> [] \<and>
      plotter_axis spec' = Some ?h \<and> ?h < length (figures (plt (outside s'))) \<and>
      current (plt (outside s')) = Some ?h \<and>
      fig_axes (figures (plt (outside s')) ! ?h) \<noteq> None \<and>
      figsize (figures (plt (outside s')) ! ?h) = (10, 6))"
    using assms
    by (simp add: stage4_def plt_figure_def plotter_def on_axis_def Let_def update_figure_def)
  then show ?thesis
    by (auto intro: drawnI)
qed

lemma arr_max_success: "xs \<noteq> [] \<Longrightarrow> \<exists>m. arr_max xs = Inr m"
  by (cases xs) (simp_all add: arr_max_def)

lemma stage5_success:
  assumes "drawn s"
  shows "\<exists>s'. stage5 s = Inr s' \<and> drawn s'"
proof -
  from assms obtain spec h a where d: "sp s = Some spec" "data spec \<noteq> []"
    "plotter_axis spec = Some h"
    "h < length (figures (plt (outside s)))" "current (plt (outside s)) = Some h"
    "fig_axes (figures (plt (outside s)) ! h) = Some a"
    "figsize (figures (plt (outside s)) ! h) = (10, 6)"
    by (rule drawnE)
  from d(2) obtain m where m: "arr_max (data spec) = Inr m"
    using arr_max_success by blast
  have "\<exists>s'. stage5 s = Inr s' \<and> sp s' = Some spec \<and>
      h < length (figures (plt (outside s'))) \<and>
      current (plt (outside s')) = Some h \<and>
      fig_axes (figures (plt (outside s')) ! h) \<noteq> None \<and>
      figsize (figures (plt (outside s')) ! h) = (10, 6)"
    using d m by (simp add: stage5_def on_axis_def Let_def update_figure_def)
  with d show ?thesis
    by (auto intro: drawnI)
qed

lemma extension_png: "extension ''water_line_spectrum.png'' = ''png''"
  by (simp add: extension_def basename_def)

lemma gcf_current: "current p = Some h \<Longrightarrow> h < length (figures p) \<Longrightarrow> gcf p = (h, p)"
  by (simp add: gcf_def)

lemma stage6_success:
  assumes "drawn s"
  shows "\<exists>s' r. stage6 s = Inr s' \<and>
     file_writes (outside s') = file_writes (outside s) @
       [\<lparr>path = ''water_line_spectrum.png'', format = ''png'', dpi = 150, rendered = r\<rparr>] \<and>
     figsize r = (10, 6) \<and>
     stdout (outside s') = stdout (outside s) @ [''Figure saved as water_line_spectrum.png'']"
proof -
  from assms obtain spec h a where d: "sp s = Some spec" "data spec \<noteq> []"
    "plotter_axis spec = Some h"
    "h < length (figures (plt (outside s)))" "current (plt (outside s)) = Some h"
    "fig_axes (figures (plt (outside s)) ! h) = Some a"
    "figsize (figures (plt (outside s)) ! h) = (10, 6)"
    by (rule drawnE)
  let ?p = "update_figure h (\<lambda>f. f\<lparr>tight := True\<rparr>) (plt (outside s))"
  from d have t: "plt_tight_layout (plt (outside s)) = ?p"
    by (simp add: plt_tight_layout_def gcf_current)
  from d have g: "gcf ?p = (h, ?p)"
    by (simp add: gcf_current)
  from d show ?thesis
    by (simp add: stage6_def Let_def t plt_savefig_def g extension_png print_def)
qed

lemma stage2_frame:
  assumes "stage2 R seed s = Inr s'"
  shows "wavelength s' = wavelength s"
proof -
  obtain nz g' where n: "make_noise R (default_rng R seed) = (nz, g')"
    by (cases "make_noise R (default_rng R seed)")
  from assms n show ?thesis
    by (auto simp: stage2_def bind_err_eq_Inr local_var_eq_Inr Let_def)
qed

lemma arrays_eq_iff:
  "arrays s' = arrays s \<longleftrightarrow> wavelength s' = wavelength s \<and> continuum s' = continuum s \<and>
     line_profile s' = line_profile s \<and> noise s' = noise s \<and> flux s' = flux s"
  by (simp add: arrays_def)

lemma main_seeded_stages:
  fixes R :: "'g numpy_random"
  obtains s1 s2 s3 s4 s5 s6 :: "'g state" and r
  where "stage1 (enter w) = Inr s1" "stage2 R seed s1 = Inr s2" "stage3 s2 = Inr s3"
    "stage4 s3 = Inr s4" "stage5 s4 = Inr s5" "stage6 s5 = Inr s6"
    "wavelength s2 = Some make_wavelength"
    "continuum s2 = Some (make_continuum make_wavelength)"
    "line_profile s2 = Some (make_line_profile make_wavelength)"
    "noise s2 = Some (fst (make_noise R (default_rng R seed)))"
    "flux s2 = Some (map2 (+) (map2 (+) (make_continuum make_wavelength)
                       (make_line_profile make_wavelength))
                     (fst (make_noise R (default_rng R seed))))"
    "outside s3 = w"
    "file_writes (outside s6) = file_writes (outside s5) @
       [\<lparr>path = ''water_line_spectrum.png'', format = ''png'', dpi = 150, rendered = r\<rparr>]"
    "figsize r = (10, 6)"
    "stdout (outside s6) = stdout (outside s5) @ [''Figure saved as water_line_spectrum.png'']"
proof -
  define s1 :: "'g state" where "s1 = (enter w)\<lparr>wavelength := Some make_wavelength\<rparr>"
  have 1: "stage1 (enter w) = Inr s1"
    by (simp add: stage1_def s1_def)
  have w1: "wavelength s1 = Some make_wavelength" and o1: "outside s1 = w"
    by (simp_all add: s1_def enter_def)
  define nz where "nz = fst (make_noise R (default_rng R seed))"
  define fl where "fl = map2 (+) (map2 (+) (make_continuum make_wavelength)
      (make_line_profile make_wavelength)) nz"
  define s2 where "s2 = s1\<lparr>continuum := Some (make_continuum make_wavelength),
      line_profile := Some (make_line_profile make_wavelength),
      rng := Some (snd (make_noise R (default_rng R seed))),
      noise := Some nz, flux := Some fl\<rparr>"
  have 2: "stage2 R seed s1 = Inr s2"
    unfolding s2_def fl_def nz_def
    by (rule stage2_success[OF w1 length_make_wavelength])
  have a2: "wavelength s2 = Some make_wavelength"
    "continuum s2 = Some (make_continuum make_wavelength)"
    "line_profile s2 = Some (make_line_profile make_wavelength)"
    "noise s2 = Some nz" "flux s2 = Some fl" "outside s2 = w"
    by (simp_all add: s2_def w1 o1)
  have "length fl = n_points"
    by (simp add: fl_def nz_def length_make_continuum length_make_line_profile
        length_make_wavelength length_make_noise)
  then have fl_ne: "fl \<noteq> []"
    by (auto simp: n_points_def)
  from stage3_success[OF a2(1) a2(5)] obtain s3 spec
    where 3: "stage3 s2 = Inr s3" and sp3: "sp s3 = Some spec" "data spec = fl"
    by blast
  from stage3_frame[OF 3] a2 have o3: "outside s3 = w" by simp
  from stage4_success[OF sp3(1)] sp3(2) fl_ne obtain s4
    where 4: "stage4 s3 = Inr s4" and d4: "drawn s4"
    by auto
  from stage5_success[OF d4] obtain s5 where 5: "stage5 s4 = Inr s5" and d5: "drawn s5"
    by blast
  from stage6_success[OF d5] obtain s6 r where 6: "stage6 s5 = Inr s6"
    and f6: "file_writes (outside s6) = file_writes (outside s5) @
       [\<lparr>path = ''water_line_spectrum.png'', format = ''png'', dpi = 150, rendered = r\<rparr>]"
      "figsize r = (10, 6)"
      "stdout (outside s6) = stdout (outside s5) @ [''Figure saved as water_line_spectrum.png'']"
    by blast
  show thesis
    using that[OF 1 2 3 4 5 6 a2(1-3) a2(4)[unfolded nz_def] a2(5)[unfolded fl_def nz_def] o3 f6] .
qed

lemma main_seeded_result:
  fixes R :: "'g numpy_random"
  shows "\<exists>(s :: 'g state) r. main_seeded R seed w = Inr s \<and>
     wavelength s = Some make_wavelength \<and>
     continuum s = Some (make_continuum make_wavelength) \<and>
     line_profile s = Some (make_line_profile make_wavelength) \<and>
     noise s = Some (fst (make_noise R (default_rng R seed))) \<and>
     flux s = Some (map2 (+) (map2 (+) (make_continuum make_wavelength)
                       (make_line_profile make_wavelength))
                     (fst (make_noise R (default_rng R seed)))) \<and>
     file_writes (outside s) = file_writes w @
       [\<lparr>path = ''water_line_spectrum.png'', format = ''png'', dpi = 150, rendered = r\<rparr>] \<and>
     figsize r = (10, 6) \<and>
     stdout (outside s) = stdout w @ [''Figure saved as water_line_spectrum.png'']"
proof -
  obtain s1 s2 s3 s4 s5 s6 :: "'g state" and r
    where st: "stage1 (enter w) = Inr s1" "stage2 R seed s1 = Inr s2" "stage3 s2 = Inr s3"
      "stage4 s3 = Inr s4" "stage5 s4 = Inr s5" "stage6 s5 = Inr s6"
    and a2: "wavelength s2 = Some make_wavelength"
      "continuum s2 = Some (make_continuum make_wavelength)"
      "line_profile s2 = Some (make_line_profile make_wavelength)"
      "noise s2 = Some (fst (make_noise R (default_rng R seed)))"
      "flux s2 = Some (map2 (+) (map2 (+) (make_continuum make_wavelength)
                       (make_line_profile make_wavelength))
                     (fst (make_noise R (default_rng R seed))))"
    and o3: "outside s3 = w"
    and f6: "file_writes (outside s6) = file_writes (outside s5) @
       [\<lparr>path = ''water_line_spectrum.png'', format = ''png'', dpi = 150, rendered = r\<rparr>]"
      "figsize r = (10, 6)"
      "stdout (outside s6) = stdout (outside s5) @ [''Figure saved as water_line_spectrum.png'']"
    by (rule main_seeded_stages)
  have m: "main_seeded R seed w = Inr s6"
    by (simp add: main_seeded_def later_stages_def st)
  have arr: "arrays s6 = arrays s2"
    using stage3_frame[OF st(3)] stage4_frame[OF st(4)] stage5_frame[OF st(5)]
      stage6_frame[OF st(6)] by simp
  have out: "file_writes (outside s5) = file_writes w" "stdout (outside s5) = stdout w"
    using stage4_frame[OF st(4)] stage5_frame[OF st(5)] o3 by simp_all
  from arr a2 have "wavelength s6 = Some make_wavelength"
    "continuum s6 = Some (make_continuum make_wavelength)"
    "line_profile s6 = Some (make_line_profile make_wavelength)"
    "noise s6 = Some (fst (make_noise R (default_rng R seed)))"
    "flux s6 = Some (map2 (+) (map2 (+) (make_continuum make_wavelength)
                       (make_line_profile make_wavelength))
                     (fst (make_noise R (default_rng R seed))))"
    by (simp_all add: arrays_eq_iff)
  with m f6 out show ?thesis
    by simp
qed

subsection \<open>The arrays\<close>

lemma make_wavelength_nth:
  assumes "i < 500"
  shows "make_wavelength ! i = 10 + real i * (20 / 499)"
  using assms linspace_nth[of i 500 10 30]
  by (simp add: make_wavelength_def wave_min_def wave_max_def n_points_def)

lemma make_continuum_nth:
  "i < length ws \<Longrightarrow> make_continuum ws ! i = 1.0 + 0.02 * (ws ! i - 20.0)"
  by (simp add: make_continuum_def scalar_add_def scalar_mul_def sub_scalar_def)

lemma make_line_profile_nth:
  "i < length ws \<Longrightarrow>
     make_line_profile ws ! i = 0.3 * exp64 (- ((ws ! i - 17.22) ^ 2) / (2.0 * 0.15 ^ 2))"
  by (simp add: make_line_profile_def scalar_mul_def np_exp_def div_scalar_def neg_def
      pow_scalar_def sub_scalar_def line_ampl_def line_center_def line_width_def)

lemma make_noise_nth:
  assumes "i < 500"
  shows "fst (make_noise R g) ! i = 0.02 * fst (standard_normal R g 500) ! i"
proof -
  obtain zs g' where r: "standard_normal R g 500 = (zs, g')"
    by (cases "standard_normal R g 500")
  from length_standard_normal[OF r] assms r show ?thesis
    by (simp add: make_noise_def scalar_mul_def n_points_def)
qed

lemma wavelength_strict_mono:
  assumes "i < j" "j < 500"
  shows "make_wavelength ! i < make_wavelength ! j"
proof -
  from assms have "real i < real j" by simp
  then have "real i * (20 / 499) < real j * (20 / 499)" by simp
  with assms show ?thesis by (simp add: make_wavelength_nth)
qed

lemma wavelength_bounds:
  assumes "i < 500"
  shows "10 \<le> make_wavelength ! i \<and> make_wavelength ! i \<le> 30"
proof -
  from assms have "real i \<le> 499" by simp
  then have "real i * (20 / 499) \<le> 499 * (20 / 499)"
    by (rule mult_right_mono) simp
  moreover have "0 \<le> real i * (20 / 499)" by simp
  ultimately show ?thesis using assms by (simp add: make_wavelength_nth)
qed


lemma wavelength_ends: "make_wavelength ! 0 = 10" "make_wavelength ! 499 = 30"
  by (simp_all add: make_wavelength_nth)

lemma main_result:
  fixes R :: "'g numpy_random"
  shows "\<exists>(s :: 'g state) r. main R w = Inr s \<and>
     wavelength s = Some make_wavelength \<and>
     continuum s = Some (make_continuum make_wavelength) \<and>
     line_profile s = Some (make_line_profile make_wavelength) \<and>
     noise s = Some (fst (make_noise R (default_rng R 12345))) \<and>
     flux s = Some (map2 (+) (map2 (+) (make_continuum make_wavelength)
                       (make_line_profile make_wavelength))
                     (fst (make_noise R (default_rng R 12345)))) \<and>
     file_writes (outside s) = file_writes w @
       [\<lparr>path = ''water_line_spectrum.png'', format = ''png'', dpi = 150, rendered = r\<rparr>] \<and>
     figsize r = (10, 6) \<and>
     stdout (outside s) = stdout w @ [''Figure saved as water_line_spectrum.png'']"
  unfolding main_def by (rule main_seeded_result)

lemma map2_add_zeros:
  "length ys = length xs \<Longrightarrow> map2 (+) xs (map (\<lambda>_. 0) ys) = (xs :: real list)"
  by (simp add: list_eq_iff_nth_eq)

lemma flux_nth:
  assumes "i < 500"
  shows "map2 (+) (map2 (+) (make_continuum make_wavelength) (make_line_profile make_wavelength))
           (fst (make_noise R g)) ! i =
         make_continuum make_wavelength ! i + make_line_profile make_wavelength ! i
           + fst (make_noise R g) ! i"
  using assms length_make_noise[of R g]
  by (simp add: length_make_continuum length_make_line_profile length_make_wavelength
      n_points_def)





subsection \<open>The frame of the later stages\<close>

lemma later_stage_frame:
  assumes "f \<in> set (later_stages R seed)" "f s = Inr s'"
  shows "wavelength s' = wavelength s"
proof -
  from assms(1) consider "f = stage2 R seed" | "f = stage3" | "f = stage4" | "f = stage5"
    | "f = stage6"
    by (auto simp: later_stages_def)
  then show ?thesis
  proof cases
    case 1
    with assms(2) show ?thesis by (simp add: stage2_frame)
  next
    case 2
    with assms(2) stage3_frame[of s s'] show ?thesis by (simp add: arrays_eq_iff)
  next
    case 3
    with assms(2) stage4_frame[of s s'] show ?thesis by (simp add: arrays_eq_iff)
  next
    case 4
    with assms(2) stage5_frame[of s s'] show ?thesis by (simp add: arrays_eq_iff)
  next
    case 5
    with assms(2) stage6_frame[of s s'] show ?thesis by (simp add: arrays_eq_iff)
  qed
qed

lemma run_stages_frame:
  assumes "set fs \<subseteq> set (later_stages R seed)" "run_stages fs s = Inr s'"
  shows "wavelength s' = wavelength s"
  using assms
proof (induction fs arbitrary: s)
  case Nil
  then show ?case by simp
next
  case (Cons f fs)
  from Cons.prems(2) obtain t where t: "f s = Inr t" "run_stages fs t = Inr s'"
    by (auto simp: bind_err_eq_Inr)
  from Cons.prems(1) have "f \<in> set (later_stages R seed)" "set fs \<subseteq> set (later_stages R seed)"
    by simp_all
  with t Cons.IH[of t] later_stage_frame[of f R seed s t] show ?case
    by simp
qed

lemma run_prefix_success:
  fixes R :: "'g numpy_random"
  assumes "k \<le> 5"
  shows "\<exists>(s :: 'g state). run_stages (stage1 # take k (later_stages R seed)) (enter w) = Inr s"
proof -
  obtain s1 s2 s3 s4 s5 s6 :: "'g state"
    where st: "stage1 (enter w) = Inr s1" "stage2 R seed s1 = Inr s2" "stage3 s2 = Inr s3"
      "stage4 s3 = Inr s4" "stage5 s4 = Inr s5" "stage6 s5 = Inr s6"
    by (rule main_seeded_stages)
  from assms consider "k = 0" | "k = 1" | "k = 2" | "k = 3" | "k = 4" | "k = 5"
    by linarith
  then show ?thesis
    by cases (simp_all add: later_stages_def st)
qed

subsection \<open>The sample next to the line centre, and a change of seed\<close>

text \<open>
  Sample 180 is the one nearest to 17.22, and the line profile there is within 0.0003 of
  its amplitude. What the flux exceeds the continuum by at that sample is this value
  plus the noise there.
\<close>

lemma nearest_sample:
  assumes "i < 500"
  shows "\<bar>make_wavelength ! 180 - 17.22\<bar> \<le> \<bar>make_wavelength ! i - 17.22\<bar>"
proof -
  have m: "make_wavelength ! 180 = 8590 / 499"
    by (simp add: make_wavelength_nth)
  show ?thesis
  proof (cases "i \<le> 180")
    case True
    then have "real i \<le> 180" by simp
    then have "real i * (20 / 499) \<le> 180 * (20 / 499)"
      by (rule mult_right_mono) simp
    with assms have "make_wavelength ! i \<le> 8590 / 499"
      by (simp add: make_wavelength_nth)
    then show ?thesis
      unfolding m by (simp add: abs_if)
  next
    case False
    then have "181 \<le> real i" by simp
    then have "181 * (20 / 499) \<le> real i * (20 / 499)"
      by (rule mult_right_mono) simp
    with assms have "8610 / 499 \<le> make_wavelength ! i"
      by (simp add: make_wavelength_nth)
    then show ?thesis
      unfolding m by (simp add: abs_if)
  qed
qed

lemma line_profile_at_nearest:
  "0.2997 < make_line_profile make_wavelength ! 180 \<and>
   make_line_profile make_wavelength ! 180 < 0.3"
proof -
  define x :: real where "x = - ((8590 / 499 - 17.22) ^ 2) / (2.0 * 0.15 ^ 2)"
  have len: "180 < length make_wavelength"
    by (simp add: length_make_wavelength n_points_def)
  have m: "make_wavelength ! 180 = 8590 / 499"
    by (simp add: make_wavelength_nth)
  have "- 600 \<le> x"
    unfolding x_def by (simp add: field_simps power2_eq_square)
  then have "exp64 x = exp x"
    by (rule exp64_exact)
  then have p: "make_line_profile make_wavelength ! 180 = 0.3 * exp x"
    unfolding x_def by (simp only: make_line_profile_nth[OF len] m)
  have "1 + x \<le> exp x"
    by (rule exp_ge_add_one_self)
  moreover have "0.999 < 1 + x"
    unfolding x_def by (simp add: field_simps power2_eq_square)
  ultimately have lo: "0.999 < exp x"
    by linarith
  have "x < 0"
    unfolding x_def by (simp add: field_simps power2_eq_square)
  then have hi: "exp x < 1"
    by (simp only: exp_less_one_iff)
  from lo hi show ?thesis
    unfolding p by simp
qed

text \<open>
  A run with another seed has the same axis, and its flux differs exactly when the
  generator gives another noise sequence.
\<close>

lemma map2_add_left_cancel:
  assumes "length xs = length ys" "length xs = length zs"
  shows "map2 (+) xs ys = map2 (+) xs zs \<longleftrightarrow> ys = (zs :: real list)"
  using assms by (auto simp: list_eq_iff_nth_eq)

lemma seed_changes_only_noise:
  fixes R :: "'g numpy_random"
  shows "\<exists>(s1 :: 'g state) (s2 :: 'g state) ax.
     main_seeded R seed1 w = Inr s1 \<and> main_seeded R seed2 w = Inr s2 \<and>
     wavelength s1 = Some ax \<and> wavelength s2 = Some ax \<and>
     (flux s1 = flux s2 \<longleftrightarrow> noise s1 = noise s2)"
proof -
  let ?b = "map2 (+) (make_continuum make_wavelength) (make_line_profile make_wavelength)"
  obtain s1 :: "'g state" where s1: "main_seeded R seed1 w = Inr s1"
    "wavelength s1 = Some make_wavelength"
    "noise s1 = Some (fst (make_noise R (default_rng R seed1)))"
    "flux s1 = Some (map2 (+) ?b (fst (make_noise R (default_rng R seed1))))"
    using main_seeded_result[of R seed1 w] by blast
  obtain s2 :: "'g state" where s2: "main_seeded R seed2 w = Inr s2"
    "wavelength s2 = Some make_wavelength"
    "noise s2 = Some (fst (make_noise R (default_rng R seed2)))"
    "flux s2 = Some (map2 (+) ?b (fst (make_noise R (default_rng R seed2))))"
    using main_seeded_result[of R seed2 w] by blast
  have "length ?b = n_points"
    by (simp add: length_make_continuum length_make_line_profile length_make_wavelength)
  then have "flux s1 = flux s2 \<longleftrightarrow> noise s1 = noise s2"
    using map2_add_left_cancel[of ?b "fst (make_noise R (default_rng R seed1))"
        "fst (make_noise R (default_rng R seed2))"]
    by (simp add: s1 s2 length_make_noise)
  with s1 s2 show ?thesis
    by blast
qed

subsection \<open>The claims\<close>

text \<open>
  C1. The flux is, sample by sample, continuum plus Gaussian line plus noise, each
  computed from the literals of the script: axis from 10 to 30 in 500 samples, line
  centre 17.22, width 0.15, amplitude 0.3, noise scale 0.02 on the draws of the
  generator seeded with 12345; and the flux has the length of the axis, 500.
\<close>

theorem flux_pointwise_sum:
  fixes R :: "'g numpy_random"
  assumes "i < 500"
  shows "\<exists>(s :: 'g state) ax c lp nz fl.
     main R w = Inr s \<and> wavelength s = Some ax \<and> continuum s = Some c \<and>
     line_profile s = Some lp \<and> noise s = Some nz \<and> flux s = Some fl \<and>
     length ax = 500 \<and> length fl = 500 \<and>
     fl ! i = c ! i + lp ! i + nz ! i \<and>
     ax ! i = 10.0 + real i * ((30.0 - 10.0) / 499) \<and>
     c ! i = 1.0 + 0.02 * (ax ! i - 20.0) \<and>
     lp ! i = 0.3 * exp64 (- ((ax ! i - 17.22) ^ 2) / (2.0 * 0.15 ^ 2)) \<and>
     nz ! i = 0.02 * fst (standard_normal R (default_rng R 12345) 500) ! i"
proof -
  obtain s :: "'g state" where s: "main R w = Inr s"
    "wavelength s = Some make_wavelength"
    "continuum s = Some (make_continuum make_wavelength)"
    "line_profile s = Some (make_line_profile make_wavelength)"
    "noise s = Some (fst (make_noise R (default_rng R 12345)))"
    "flux s = Some (map2 (+) (map2 (+) (make_continuum make_wavelength)
                       (make_line_profile make_wavelength))
                     (fst (make_noise R (default_rng R 12345))))"
    using main_result[of R w] by blast
  have len: "length make_wavelength = 500"
    by (simp add: length_make_wavelength n_points_def)
  have lenf: "length (map2 (+) (map2 (+) (make_continuum make_wavelength)
                       (make_line_profile make_wavelength))
                     (fst (make_noise R (default_rng R 12345)))) = 500"
    using length_make_noise[of R "default_rng R 12345"]
    by (simp add: length_make_continuum length_make_line_profile len n_points_def)
  from assms len have "make_continuum make_wavelength ! i = 1.0 + 0.02 * (make_wavelength ! i - 20.0)"
    "make_line_profile make_wavelength ! i =
       0.3 * exp64 (- ((make_wavelength ! i - 17.22) ^ 2) / (2.0 * 0.15 ^ 2))"
    by (simp_all only: make_continuum_nth make_line_profile_nth)
  moreover from assms have "make_wavelength ! i = 10.0 + real i * ((30.0 - 10.0) / 499)"
    by (simp add: make_wavelength_nth)
  ultimately show ?thesis
    using s len lenf flux_nth[OF assms, of R "default_rng R 12345"]
      make_noise_nth[OF assms, of R "default_rng R 12345"]
    by (intro exI conjI) assumption+
qed

theorem flux_pointwise_sum_witness:
  "(180 :: nat) < 500 \<and>
   (\<exists>s ax fl. main counter_random fresh_world = Inr s \<and> wavelength s = Some ax \<and>
      flux s = Some fl \<and> length ax = 500 \<and> length fl = 500 \<and>
      ax ! 180 = 10 + 180 * (20 / 499))"
proof -
  have h: "(180 :: nat) < 500" by simp
  from flux_pointwise_sum[OF h, of counter_random fresh_world] h show ?thesis
    by auto
qed



text \<open>
  C3. At every sample \<open>i\<close> of the axis the continuum is exactly
  \<open>1.0 + 0.02 * (w - 20.0)\<close> for the wavelength \<open>w\<close> of that sample. It is the
  first of the three terms of the flux, and it is what the sum of line 47 gives when
  the other two, line profile and noise, are set to zero.
\<close>

theorem continuum_linear:
  fixes R :: "'g numpy_random"
  assumes "i < 500"
  shows "\<exists>(s :: 'g state) ax c lp nz fl.
     main R w = Inr s \<and> wavelength s = Some ax \<and> continuum s = Some c \<and>
     line_profile s = Some lp \<and> noise s = Some nz \<and> flux s = Some fl \<and>
     length ax = 500 \<and> length c = 500 \<and>
     c ! i = 1.0 + 0.02 * (ax ! i - 20.0) \<and>
     fl ! i = c ! i + lp ! i + nz ! i \<and>
     make_flux c (map (\<lambda>_. 0) lp) (map (\<lambda>_. 0) nz) = Inr c"
proof -
  obtain s :: "'g state" where s: "main R w = Inr s"
    "wavelength s = Some make_wavelength"
    "continuum s = Some (make_continuum make_wavelength)"
    "line_profile s = Some (make_line_profile make_wavelength)"
    "noise s = Some (fst (make_noise R (default_rng R 12345)))"
    "flux s = Some (map2 (+) (map2 (+) (make_continuum make_wavelength)
                       (make_line_profile make_wavelength))
                     (fst (make_noise R (default_rng R 12345))))"
    using main_result[of R w] by blast
  let ?c = "make_continuum make_wavelength"
  let ?lp = "make_line_profile make_wavelength"
  let ?nz = "fst (make_noise R (default_rng R 12345))"
  have len: "length make_wavelength = 500"
    by (simp add: length_make_wavelength n_points_def)
  then have lenc: "length ?c = 500"
    by (simp add: length_make_continuum)
  from assms len have c: "?c ! i = 1.0 + 0.02 * (make_wavelength ! i - 20.0)"
    by (simp only: make_continuum_nth)
  have d: "map2 (+) (map2 (+) ?c ?lp) ?nz ! i = ?c ! i + ?lp ! i + ?nz ! i"
    by (rule flux_nth[OF assms])
  have "length ?lp = length ?c" "length ?nz = length ?c"
    using length_make_noise[of R "default_rng R 12345"]
    by (simp_all add: length_make_line_profile lenc len n_points_def)
  then have z: "make_flux ?c (map (\<lambda>_. 0) ?lp) (map (\<lambda>_. 0) ?nz) = Inr ?c"
    by (simp add: make_flux_same_length map2_add_zeros)
  from s len lenc c d z show ?thesis
    by (intro exI conjI) assumption+
qed

theorem continuum_linear_witness:
  "(499 :: nat) < 500 \<and>
   (\<exists>s ax c. main counter_random fresh_world = Inr s \<and> wavelength s = Some ax \<and>
      continuum s = Some c \<and> c ! 499 = 1.0 + 0.02 * (ax ! 499 - 20.0))"
proof -
  have h: "(499 :: nat) < 500" by simp
  from continuum_linear[OF h, of counter_random fresh_world] h show ?thesis
    by auto
qed



text \<open>
  C7. A run returns, and it has written exactly one file, named
  \<open>water_line_spectrum.png\<close>, in PNG format at 150 dots per inch from a figure of 10 by
  6 inches, and printed exactly one line, which contains that file name.
\<close>

theorem one_file_one_line:
  fixes R :: "'g numpy_random"
  shows "\<exists>(s :: 'g state) f line.
     main R w = Inr s \<and>
     file_writes (outside s) = file_writes w @ [f] \<and>
     path f = ''water_line_spectrum.png'' \<and> format f = ''png'' \<and> dpi f = 150 \<and>
     figsize (rendered f) = (10, 6) \<and>
     stdout (outside s) = stdout w @ [line] \<and>
     line = ''Figure saved as water_line_spectrum.png'' \<and>
     sublist ''water_line_spectrum.png'' line"
proof -
  obtain s :: "'g state" and r where s: "main R w = Inr s"
    "file_writes (outside s) = file_writes w @
       [\<lparr>path = ''water_line_spectrum.png'', format = ''png'', dpi = 150, rendered = r\<rparr>]"
    "figsize r = (10, 6)"
    "stdout (outside s) = stdout w @ [''Figure saved as water_line_spectrum.png'']"
    using main_result[of R w] by blast
  have "''Figure saved as water_line_spectrum.png''
      = ''Figure saved as '' @ ''water_line_spectrum.png''"
    by simp
  then have sub: "sublist ''water_line_spectrum.png'' ''Figure saved as water_line_spectrum.png''"
    by (simp only: sublist_append_leftI)
  let ?f = "\<lparr>path = ''water_line_spectrum.png'', format = ''png'', dpi = 150, rendered = r\<rparr>"
  have "path ?f = ''water_line_spectrum.png''" "format ?f = ''png''" "dpi ?f = 150"
    "figsize (rendered ?f) = (10, 6)"
    using s(3) by simp_all
  with s sub show ?thesis
    by (intro exI conjI) (assumption | rule refl)+
qed

theorem one_file_one_line_witness:
  "\<exists>s f. main counter_random busy_world = Inr s \<and>
     file_writes (outside s) = file_writes busy_world @ [f] \<and>
     length (file_writes (outside s)) = 2 \<and> length (stdout (outside s)) = 2 \<and>
     path f = ''water_line_spectrum.png'' \<and> figsize (rendered f) = (10, 6)"
proof -
  from one_file_one_line[of counter_random busy_world]
  obtain s f line where a: "main counter_random busy_world = Inr s"
    "file_writes (outside s) = file_writes busy_world @ [f]"
    "path f = ''water_line_spectrum.png''" "figsize (rendered f) = (10, 6)"
    "stdout (outside s) = stdout busy_world @ [line]"
    by blast
  from a(2,5) have "length (file_writes (outside s)) = 2" "length (stdout (outside s)) = 2"
    by (simp_all add: busy_world_def)
  with a show ?thesis by blast
qed

text \<open>
  C8. Once stage 1 has made the wavelength axis, nothing changes it: after any number of
  the later stages (flux synthesis, Spectrum construction, rendering, annotation, saving)
  the run has returned and the axis is still the sequence stage 1 generated; and no
  later stage, started in any state, returns a state with another axis.
\<close>

theorem axis_never_modified:
  fixes R :: "'g numpy_random"
  assumes "k \<le> length (later_stages R seed)"
  shows "(\<exists>(s :: 'g state). run_stages (stage1 # take k (later_stages R seed)) (enter w) = Inr s \<and>
            wavelength s = Some (linspace 10.0 30.0 500)) \<and>
         (\<forall>f (s :: 'g state) s'. f \<in> set (later_stages R seed) \<and> f s = Inr s'
            \<longrightarrow> wavelength s' = wavelength s)"
proof -
  from assms have k: "k \<le> 5"
    by (simp add: later_stages_def)
  from run_prefix_success[OF k, of R seed w] obtain s :: "'g state"
    where s: "run_stages (stage1 # take k (later_stages R seed)) (enter w) = Inr s"
    by blast
  then obtain s1 where s1: "stage1 (enter w) = Inr s1"
    "run_stages (take k (later_stages R seed)) s1 = Inr s"
    by (auto simp: bind_err_eq_Inr)
  have "set (take k (later_stages R seed)) \<subseteq> set (later_stages R seed)"
    by (rule set_take_subset)
  from run_stages_frame[OF this s1(2)] s1(1) have "wavelength s = Some make_wavelength"
    by (auto simp: stage1_def)
  then have "wavelength s = Some (linspace 10.0 30.0 500)"
    by (simp add: make_wavelength_def wave_min_def wave_max_def n_points_def)
  with s later_stage_frame show ?thesis
    by blast
qed

theorem axis_never_modified_witness:
  "(5 :: nat) \<le> length (later_stages counter_random 12345) \<and>
   (\<exists>s. main counter_random fresh_world = Inr s \<and> wavelength s = Some (linspace 10.0 30.0 500)) \<and>
   stage6 \<in> set (later_stages counter_random 12345) \<and>
   (\<exists>s'. stage6 ((enter busy_world)\<lparr>wavelength := Some [10.0, 30.0]\<rparr> :: int state) = Inr s' \<and>
      wavelength s' = Some [10.0, 30.0])"
proof -
  have h: "(5 :: nat) \<le> length (later_stages counter_random 12345)"
    by (simp add: later_stages_def)
  have t: "take 5 (later_stages counter_random 12345) = later_stages counter_random 12345"
    by (simp add: later_stages_def)
  have m: "stage6 \<in> set (later_stages counter_random 12345)"
    by (simp add: later_stages_def)
  let ?s = "(enter busy_world)\<lparr>wavelength := Some [10.0, 30.0]\<rparr> :: int state"
  obtain s' where r: "stage6 ?s = Inr s'"
    by (simp add: stage6_def Let_def)
  note a = axis_never_modified[OF h, of fresh_world]
  from a t have run: "\<exists>s. main counter_random fresh_world = Inr s \<and>
      wavelength s = Some (linspace 10.0 30.0 500)"
    by (simp add: main_def main_seeded_def)
  from a m r have "wavelength s' = wavelength ?s"
    by blast
  then have "wavelength s' = Some [10.0, 30.0]"
    by simp
  with h run m r show ?thesis
    by blast
qed




text \<open>
  C10. The continuum of a run is strictly increasing along the axis, its values lie
  between 0.8 and 1.2, and it is 0.8 at the first sample, 10, and 1.2 at the last, 30.
\<close>

theorem continuum_increasing:
  fixes R :: "'g numpy_random"
  shows "\<exists>(s :: 'g state) ax c.
     main R w = Inr s \<and> wavelength s = Some ax \<and> continuum s = Some c \<and>
     length ax = 500 \<and> length c = 500 \<and>
     (\<forall>i j. i < j \<and> j < 500 \<longrightarrow> c ! i < c ! j) \<and>
     (\<forall>i. i < 500 \<longrightarrow> 0.8 \<le> c ! i \<and> c ! i \<le> 1.2) \<and>
     ax ! 0 = 10.0 \<and> c ! 0 = 0.8 \<and> ax ! 499 = 30.0 \<and> c ! 499 = 1.2"
proof -
  obtain s :: "'g state" where s: "main R w = Inr s"
    "wavelength s = Some make_wavelength"
    "continuum s = Some (make_continuum make_wavelength)"
    using main_result[of R w] by blast
  let ?c = "make_continuum make_wavelength"
  have len: "length make_wavelength = 500"
    by (simp add: length_make_wavelength n_points_def)
  then have lenc: "length ?c = 500"
    by (simp add: length_make_continuum)
  have c: "?c ! i = 1.0 + 0.02 * (make_wavelength ! i - 20.0)" if "i < 500" for i
    using that len by (simp only: make_continuum_nth)
  have mono: "\<forall>i j. i < j \<and> j < 500 \<longrightarrow> ?c ! i < ?c ! j"
  proof (intro allI impI)
    fix i j :: nat
    assume h: "i < j \<and> j < 500"
    then have "make_wavelength ! i < make_wavelength ! j"
      by (simp add: wavelength_strict_mono)
    with h show "?c ! i < ?c ! j"
      by (simp add: c)
  qed
  have bounds: "\<forall>i. i < 500 \<longrightarrow> 0.8 \<le> ?c ! i \<and> ?c ! i \<le> 1.2"
  proof (intro allI impI)
    fix i :: nat
    assume h: "i < 500"
    from wavelength_bounds[OF h]
    have "0.8 \<le> 1.0 + 0.02 * (make_wavelength ! i - 20.0) \<and>
          1.0 + 0.02 * (make_wavelength ! i - 20.0) \<le> 1.2"
      by (simp add: field_simps)
    with h show "0.8 \<le> ?c ! i \<and> ?c ! i \<le> 1.2"
      by (simp only: c)
  qed
  have ends: "make_wavelength ! 0 = 10.0" "?c ! 0 = 0.8" "make_wavelength ! 499 = 30.0"
    "?c ! 499 = 1.2"
    by (simp_all add: c wavelength_ends)
  from s len lenc mono bounds ends show ?thesis
    by (intro exI conjI) assumption+
qed

theorem continuum_increasing_witness:
  "\<exists>s c. main counter_random fresh_world = Inr s \<and> continuum s = Some c \<and>
     c ! 3 < c ! 250 \<and> 0.8 \<le> c ! 250 \<and> c ! 250 \<le> 1.2"
proof -
  from continuum_increasing[of counter_random fresh_world]
  obtain s c where a: "main counter_random fresh_world = Inr s" "continuum s = Some c"
    "\<forall>i j. i < j \<and> j < 500 \<longrightarrow> c ! i < c ! j"
    "\<forall>i. i < 500 \<longrightarrow> 0.8 \<le> c ! i \<and> c ! i \<le> 1.2"
    by blast
  from a(3)[rule_format, of 3 250] have b: "c ! 3 < c ! 250" by simp
  from a(4)[rule_format, of 250] have d: "0.8 \<le> c ! 250" "c ! 250 \<le> 1.2" by simp_all
  from a(1,2) b d show ?thesis by blast
qed

end
